theory Spec2Isabelle
  imports Complex_Main "HOL-Library.Word" "HOL-Library.AList" "HOL-Library.Multiset"
begin

section \<open>Data model of \<open>ptf/dataplane.py\<close>\<close>

text \<open>
  A frame is a Python \<open>bytes\<close> value: a list of octets. A receive timestamp is the
  float returned by \<open>time.time()\<close>; only its order is ever used, and it is modelled as a
  (finite) real number. Device and port numbers are Python integers.
\<close>

type_synonym byte = "8 word"
type_synonym frame = "byte list"
type_synonym timestamp = real
type_synonym port_id = "int \<times> int"

text \<open>The exceptions that the modelled code can raise.\<close>

datatype py_error =
    KeyError
  | IndexError
  | AssertionError
  | StructError
  | TypeError
  | BackendError

subsection \<open>Expected values and \<open>match_exp_pkt\<close>\<close>

text \<open>
  Modelled from the spec: the class \<open>mask.Mask\<close> (module \<open>mask\<close> is imported by
  \<open>dataplane.py\<close> but is not part of the sources). The glossary describes it as an opaque
  matcher exposing \<open>is_valid()\<close> and a match method on frames; both are taken as fields.
\<close>

record mask =
  is_valid :: bool
  pkt_match :: "frame \<Rightarrow> bool"

text \<open>
  The first argument of \<open>match_exp_pkt\<close> is either a \<open>Mask\<close> instance or a value that
  \<open>bytes(...)\<close> turns into a byte string; the latter is represented by that byte string.
\<close>

datatype expected = Mask mask | Raw frame

text \<open>
  \<^verbatim>\<open>
  def match_exp_pkt(exp_pkt, pkt):
      if isinstance(exp_pkt, mask.Mask):
          if not exp_pkt.is_valid():
              return False
          return exp_pkt.pkt_match(pkt)
      e = bytes(exp_pkt)
      p = bytes(pkt)
      if len(e) < 60:
          p = p[: len(e)]
      return e == p
  \<close>
\<close>

fun match_exp_pkt :: "expected \<Rightarrow> frame \<Rightarrow> bool" where
  "match_exp_pkt (Mask m) pkt =
     (if \<not> is_valid m then False else pkt_match m pkt)"
| "match_exp_pkt (Raw e) pkt =
     (let p = pkt;
          p = (if length e < 60 then take (length e) p else p)
      in e = p)"

subsection \<open>The state of a \<open>DataPlane\<close> object\<close>

text \<open>
  A port object as built by the configured port class (\<open>self.dppclass\<close>), its
  attributes prefixed with \<open>bk\<close>. The two \<open>stash\<close> fields are the attributes \<open>_port_number\<close> and \<open>_device_number\<close> that
  \<open>port_add\<close> sets on the object after construction.
\<close>

record backend =
  bk_interface_name :: string
  bk_device_number :: int
  bk_port_number :: int
  bk_stash_port_number :: "int option"
  bk_stash_device_number :: "int option"

type_synonym queue = "(frame \<times> timestamp) list"

text \<open>
  The fields of \<open>DataPlane\<close> set by \<open>__init__\<close>. The dictionaries \<open>self.ports\<close> and
  \<open>self.packet_queues\<close> are association lists in insertion order (the order in which
  Python iterates them); assignment to a key is \<open>AList.update\<close> (an existing key keeps
  its place, a new key goes to the end) and \<open>del\<close> is \<open>AList.delete\<close>. The two
  \<open>defaultdict(int)\<close> counters are total functions, 0 where nothing was counted.
  \<open>pcap_writer\<close> is \<open>None\<close> or the records written so far to the pcap sink.
\<close>

record dataplane =
  ports :: "(port_id \<times> backend) list"
  packet_queues :: "(port_id \<times> queue) list"
  rx_counters :: "port_id \<Rightarrow> int"
  tx_counters :: "port_id \<Rightarrow> int"
  qlen :: int
  killed :: bool
  pcap_writer :: "(frame \<times> timestamp \<times> int \<times> int) list option"
  dppclass :: "string \<Rightarrow> int \<Rightarrow> int \<Rightarrow> py_error + backend"

definition MAX_QUEUE_LEN :: int where
  "MAX_QUEUE_LEN = 100"

definition POLL_MAX_RECENT_PACKETS :: nat where
  "POLL_MAX_RECENT_PACKETS = 3"

text \<open>
  \<open>DataPlane.__init__\<close>: empty dictionaries, \<open>qlen\<close> taken from \<open>config["qlen"]\<close> when
  present and \<open>MAX_QUEUE_LEN\<close> otherwise. The port class chosen from the configuration
  is the second argument.
\<close>

definition init :: "int option \<Rightarrow> (string \<Rightarrow> int \<Rightarrow> int \<Rightarrow> py_error + backend) \<Rightarrow> dataplane" where
  "init config_qlen cls =
     \<lparr>ports = [], packet_queues = [], rx_counters = (\<lambda>k. 0), tx_counters = (\<lambda>k. 0),
      qlen = (case config_qlen of Some q \<Rightarrow> q | None \<Rightarrow> MAX_QUEUE_LEN),
      killed = False, pcap_writer = None, dppclass = cls\<rparr>"

text \<open>A port class whose constructor always succeeds (used for concrete runs).\<close>

definition plain_port :: "string \<Rightarrow> int \<Rightarrow> int \<Rightarrow> py_error + backend" where
  "plain_port iface dev port =
     Inr \<lparr>bk_interface_name = iface, bk_device_number = dev, bk_port_number = port,
          bk_stash_port_number = None, bk_stash_device_number = None\<rparr>"

subsection \<open>Port registry: \<open>port_add\<close>, \<open>port_remove\<close>, \<open>flush\<close>\<close>

text \<open>
  \<^verbatim>\<open>
  def port_add(self, interface_name, device_number, port_number):
      port_id = (device_number, port_number)
      with self.cvar:
          self.ports[port_id] = self.dppclass(
              interface_name, device_number, port_number, self.config)
          self.ports[port_id]._port_number = port_number
          self.ports[port_id]._device_number = device_number
          self.packet_queues[port_id] = []
      self.waker.notify()
  \<close>
  The constructor may raise (a socket that cannot be bound); then nothing was assigned.
\<close>

definition port_add :: "dataplane \<Rightarrow> string \<Rightarrow> int \<Rightarrow> int \<Rightarrow> py_error option \<times> dataplane" where
  "port_add s iface dev port =
     (let port_id = (dev, port) in
      case dppclass s iface dev port of
        Inl e \<Rightarrow> (Some e, s)
      | Inr b \<Rightarrow>
          (let s1 = s\<lparr>ports := AList.update port_id b (ports s)\<rparr>;
               s2 = s1\<lparr>ports := AList.update port_id
                         (b\<lparr>bk_stash_port_number := Some port,
                            bk_stash_device_number := Some dev\<rparr>)
                         (ports s1)\<rparr>;
               s3 = s2\<lparr>packet_queues := AList.update port_id [] (packet_queues s2)\<rparr>
           in (None, s3)))"

text \<open>
  \<^verbatim>\<open>
  def port_remove(self, device_number, port_number):
      port_id = (device_number, port_number)
      with self.cvar:
          if port_id not in self.ports:
              ...
              return False
          del self.ports[port_id]
          del self.packet_queues[port_id]
      self.waker.notify()
      return True
  \<close>
  \<open>del self.packet_queues[port_id]\<close> raises \<open>KeyError\<close> when the key has a port but no
  queue.
\<close>

definition port_remove :: "dataplane \<Rightarrow> int \<Rightarrow> int \<Rightarrow> (py_error + bool) \<times> dataplane" where
  "port_remove s dev port =
     (let port_id = (dev, port) in
      if map_of (ports s) port_id = None then (Inr False, s)
      else
        (let s1 = s\<lparr>ports := AList.delete port_id (ports s)\<rparr> in
         if map_of (packet_queues s1) port_id = None then (Inl KeyError, s1)
         else (Inr True, s1\<lparr>packet_queues := AList.delete port_id (packet_queues s1)\<rparr>)))"

text \<open>
  \<^verbatim>\<open>
  def flush(self):
      for port_id in list(self.packet_queues.keys()):
          self.packet_queues[port_id] = []
  \<close>
\<close>

definition flush :: "dataplane \<Rightarrow> dataplane" where
  "flush s =
     fold (\<lambda>port_id s'. s'\<lparr>packet_queues := AList.update port_id [] (packet_queues s')\<rparr>)
          (map fst (packet_queues s)) s"

subsection \<open>The capture loop \<open>run\<close>\<close>

text \<open>
  One member of \<open>sel_in\<close>: the waker, or a packet source together with what its \<open>recv()\<close>
  does when the loop calls it: it raises, returns \<open>None\<close>, or returns
  \<open>(device_number, port_number, pkt, timestamp)\<close>.
\<close>

datatype sel = Waker | Source "py_error + (int \<times> int \<times> frame \<times> timestamp) option"

text \<open>
  The body of \<open>for sel in sel_in\<close>:
  \<^verbatim>\<open>
  if sel == self.waker:
      self.waker.wait()
      continue
  else:
      t = sel.recv()
      if t is None:
          continue
      device_number, port_number, pkt, timestamp = t
      if self.pcap_writer:
          self.pcap_writer.write(pkt, timestamp, device_number, port_number)
      queue = self.packet_queues[(device_number, port_number)]
      if len(queue) >= self.qlen:
          queue.pop(0)
      queue.append((pkt, timestamp))
      self.rx_counters[(device_number, port_number)] += 1
  \<close>
  The result is the exception that left the body, if any, and the state at that point.
  The dictionary lookup raises \<open>KeyError\<close> for a key without a queue, and \<open>pop(0)\<close>
  raises \<open>IndexError\<close> on an empty list.
\<close>

text \<open>
  \<open>if self.pcap_writer: self.pcap_writer.write(pkt, timestamp, device_number, port_number)\<close>
\<close>

definition pcap_write :: "dataplane \<Rightarrow> frame \<Rightarrow> timestamp \<Rightarrow> int \<Rightarrow> int \<Rightarrow> dataplane" where
  "pcap_write s pkt ts dev port =
     (case pcap_writer s of
        None \<Rightarrow> s
      | Some w \<Rightarrow> s\<lparr>pcap_writer := Some (w @ [(pkt, ts, dev, port)])\<rparr>)"

definition run_sel :: "dataplane \<Rightarrow> sel \<Rightarrow> py_error option \<times> dataplane" where
  "run_sel s sel =
     (case sel of
        Waker \<Rightarrow> (None, s)
      | Source r \<Rightarrow>
          (case r of
             Inl e \<Rightarrow> (Some e, s)
           | Inr None \<Rightarrow> (None, s)
           | Inr (Some (device_number, port_number, pkt, timestamp)) \<Rightarrow>
               (let s1 = pcap_write s pkt timestamp device_number port_number
                in case map_of (packet_queues s1) (device_number, port_number) of
                     None \<Rightarrow> (Some KeyError, s1)
                   | Some queue \<Rightarrow>
                       if qlen s1 \<le> int (length queue) \<and> queue = [] then (Some IndexError, s1)
                       else
                         (let queue1 = (if qlen s1 \<le> int (length queue) then tl queue else queue);
                              queue2 = queue1 @ [(pkt, timestamp)];
                              s2 = s1\<lparr>packet_queues :=
                                        AList.update (device_number, port_number) queue2
                                          (packet_queues s1)\<rparr>
                          in (None,
                              s2\<lparr>rx_counters := (rx_counters s2)
                                    ((device_number, port_number) :=
                                       rx_counters s2 (device_number, port_number) + 1)\<rparr>)))))"

text \<open>The \<open>for\<close> loop over \<open>sel_in\<close>; an exception leaves it at once.\<close>

fun run_for :: "dataplane \<Rightarrow> sel list \<Rightarrow> py_error option \<times> dataplane" where
  "run_for s [] = (None, s)"
| "run_for s (x # xs) =
     (case run_sel s x of
        (Some e, s') \<Rightarrow> (Some e, s')
      | (None, s') \<Rightarrow> run_for s' xs)"

text \<open>
  The outer loop \<open>while not self.killed\<close>. Each iteration is given by what \<open>select\<close> does:
  it fails (the loop logs and breaks) or it returns the readable members. An exception
  raised inside the \<open>with self.cvar\<close> block is not caught anywhere in \<open>run\<close>: it ends the
  thread. \<open>Running\<close> means that the iterations supplied were all carried out and the loop
  is still going.
\<close>

datatype select_result = SelectError | Ready "sel list"

datatype run_status = Running | Exited | Crashed py_error

fun run :: "dataplane \<Rightarrow> select_result list \<Rightarrow> run_status \<times> dataplane" where
  "run s [] = (if killed s then (Exited, s) else (Running, s))"
| "run s (r # rs) =
     (if killed s then (Exited, s)
      else (case r of
              SelectError \<Rightarrow> (Exited, s)
            | Ready sel_in \<Rightarrow>
                (case run_for s sel_in of
                   (Some e, s') \<Rightarrow> (Crashed e, s')
                 | (None, s') \<Rightarrow> run s' rs)))"

subsection \<open>Event sequences\<close>

text \<open>
  A batch of frames \<open>(pkt, timestamp)\<close> received for one key \<open>(d, p)\<close>, as the
  members of \<open>sel_in\<close> that deliver them.
\<close>

definition arrivals :: "int \<Rightarrow> int \<Rightarrow> (frame \<times> timestamp) list \<Rightarrow> sel list" where
  "arrivals d p fs = map (\<lambda>(f, t). Source (Inr (Some (d, p, f, t)))) fs"

text \<open>
  The operations that change the registry and the queues, as events. A frame arrival is
  one iteration of the capture loop that finds one source readable; it only happens
  while the capture thread is still running (\<open>run_status\<close> \<open>Running\<close>). An API call
  that raises leaves the state it had reached.
\<close>

datatype event =
    PortAdd string int int
  | PortRemove int int
  | Flush
  | Arrival int int frame timestamp

fun exec_event :: "dataplane \<times> run_status \<Rightarrow> event \<Rightarrow> dataplane \<times> run_status" where
  "exec_event (s, st) (PortAdd iface dev port) = (snd (port_add s iface dev port), st)"
| "exec_event (s, st) (PortRemove dev port) = (snd (port_remove s dev port), st)"
| "exec_event (s, st) Flush = (flush s, st)"
| "exec_event (s, st) (Arrival dev port pkt ts) =
     (if st = Running
      then (case run s [Ready [Source (Inr (Some (dev, port, pkt, ts)))]] of
              (st', s') \<Rightarrow> (s', st'))
      else (s, st))"

definition exec :: "dataplane \<times> run_status \<Rightarrow> event list \<Rightarrow> dataplane \<times> run_status" where
  "exec = foldl exec_event"

text \<open>
  Every queue is within the capacity and was counted: its length is at most \<open>qlen\<close>
  and at most the rx counter of its key.
\<close>

definition queue_bounds :: "dataplane \<Rightarrow> bool" where
  "queue_bounds s \<longleftrightarrow>
     (\<forall>k q. (k, q) \<in> set (packet_queues s) \<longrightarrow>
        int (length q) \<le> qlen s \<and> int (length q) \<le> rx_counters s k)"

definition registry_invariant :: "dataplane \<Rightarrow> bool" where
  "registry_invariant s \<longleftrightarrow>
     fst ` set (ports s) = fst ` set (packet_queues s)
     \<and> queue_bounds s \<and> (\<forall>k. 0 \<le> rx_counters s k) \<and> 0 \<le> qlen s"

text \<open>A data plane with the default capacity and the two ports (0, 1) and (0, 2).\<close>

definition two_ports :: dataplane where
  "two_ports = snd (port_add (snd (port_add (init None plain_port) ''eth1'' 0 1)) ''eth2'' 0 2)"

section \<open>Properties of \<open>match_exp_pkt\<close>\<close>

text \<open>
  Claim C1. For a mask, \<open>match_exp_pkt\<close> is False when the mask reports itself invalid and
  is the mask's own verdict otherwise. For a byte string \<open>e\<close> shorter than 60 bytes it is
  True exactly when \<open>e\<close> equals the first \<open>len(e)\<close> bytes of the received frame; for
  \<open>len(e) \<ge> 60\<close> it is True exactly when \<open>e\<close> equals the whole frame. In particular
  \<open>match_exp_pkt(x, x)\<close> is True for every byte string \<open>x\<close>.
\<close>

theorem match_exp_pkt_cases:
  "(\<not> is_valid m \<longrightarrow> match_exp_pkt (Mask m) p = False)
   \<and> (is_valid m \<longrightarrow> match_exp_pkt (Mask m) p = pkt_match m p)
   \<and> (length e < 60 \<longrightarrow> match_exp_pkt (Raw e) p = (e = take (length e) p))
   \<and> (60 \<le> length e \<longrightarrow> match_exp_pkt (Raw e) p = (e = p))
   \<and> match_exp_pkt (Raw x) x"
  by (simp add: Let_def)

theorem match_exp_pkt_cases_witness:
  "\<not> is_valid \<lparr>is_valid = False, pkt_match = (\<lambda>f. True)\<rparr>
   \<and> match_exp_pkt (Mask \<lparr>is_valid = False, pkt_match = (\<lambda>f. True)\<rparr>) [1, 2] = False
   \<and> is_valid \<lparr>is_valid = True, pkt_match = (\<lambda>f. f = [1, 2])\<rparr>
   \<and> match_exp_pkt (Mask \<lparr>is_valid = True, pkt_match = (\<lambda>f. f = [1, 2])\<rparr>) [1, 2]
   \<and> length [1, 2 :: byte] < 60
   \<and> match_exp_pkt (Raw [1, 2]) [1, 2, 0, 0]
   \<and> 60 \<le> length (replicate 60 (170 :: byte))
   \<and> \<not> match_exp_pkt (Raw (replicate 60 170)) (replicate 60 170 @ [0])
   \<and> match_exp_pkt (Raw [7]) [7]"
  using match_exp_pkt_cases [of "\<lparr>is_valid = False, pkt_match = (\<lambda>f. True)\<rparr>" "[1, 2]" "[1, 2]" "[7]"]
    match_exp_pkt_cases [of "\<lparr>is_valid = True, pkt_match = (\<lambda>f. f = [1, 2])\<rparr>" "[1, 2]"
      "[1, 2]" "[7]"]
    match_exp_pkt_cases [of "\<lparr>is_valid = True, pkt_match = (\<lambda>f. True)\<rparr>" "[1, 2, 0, 0]"
      "[1, 2]" "[7]"]
    match_exp_pkt_cases [of "\<lparr>is_valid = True, pkt_match = (\<lambda>f. True)\<rparr>"
      "replicate 60 170 @ [0]" "replicate 60 170" "[7]"]
  by simp

text \<open>
  Claim C10. A received frame strictly shorter than the expected byte string never
  matches, whether the expected string is shorter than 60 bytes or not.
\<close>

theorem match_exp_pkt_short_frame:
  "length p < length e \<Longrightarrow> match_exp_pkt (Raw e) p = False"
  by (auto simp: Let_def)

theorem match_exp_pkt_short_frame_witness:
  "length [1 :: byte] < length [1, 2 :: byte] \<and> match_exp_pkt (Raw [1, 2]) [1] = False
   \<and> length (replicate 60 (0 :: byte)) < length (replicate 61 (0 :: byte))
   \<and> match_exp_pkt (Raw (replicate 61 0)) (replicate 60 0) = False"
  using match_exp_pkt_short_frame [of "[1]" "[1, 2]"]
    match_exp_pkt_short_frame [of "replicate 60 0" "replicate 61 0"]
  by simp
section \<open>Association lists as dictionaries\<close>

lemma set_update_cases:
  "x \<in> set (AList.update k v al) \<Longrightarrow> x = (k, v) \<or> x \<in> set al"
  by (induction al) (auto split: if_splits)

lemma set_delete_subset: "x \<in> set (AList.delete k al) \<Longrightarrow> x \<in> set al"
  by (induction al) (auto split: if_splits)

lemma keys_delete: "fst ` set (AList.delete k al) = fst ` set al - {k}"
proof -
  have "set (map fst (AList.delete k al)) = set (map fst al) - {k}"
    by (simp only: delete_keys set_removeAll)
  then show ?thesis by simp
qed

lemma map_of_fold_update_empty:
  "map_of (fold (\<lambda>k. AList.update k v) ks qs) = (\<lambda>k. if k \<in> set ks then Some v else map_of qs k)"
  by (induction ks arbitrary: qs) (auto simp: update_conv' fun_eq_iff)

lemma keys_fold_update_existing:
  "set ks \<subseteq> fst ` set qs \<Longrightarrow> map fst (fold (\<lambda>k. AList.update k v) ks qs) = map fst qs"
proof (induction ks arbitrary: qs)
  case Nil
  then show ?case by simp
next
  case (Cons k ks)
  have "map fst (AList.update k v qs) = map fst qs"
    using Cons.prems by (simp add: update_keys)
  moreover have "set ks \<subseteq> fst ` set (AList.update k v qs)"
    using Cons.prems by (auto simp: dom_update)
  ultimately show ?case using Cons.IH [of "AList.update k v qs"] by simp
qed

lemma set_fold_update_cases:
  "x \<in> set (fold (\<lambda>k. AList.update k v) ks qs) \<Longrightarrow> snd x = v \<or> x \<in> set qs"
proof (induction ks arbitrary: qs)
  case Nil
  then show ?case by simp
next
  case (Cons k ks)
  then have "snd x = v \<or> x \<in> set (AList.update k v qs)" by simp
  then show ?case using set_update_cases [of x k v qs] by auto
qed

section \<open>The port registry\<close>

subsection \<open>\<open>flush\<close>\<close>

lemma flush_fold_fields:
  "fold (\<lambda>port_id s'. s'\<lparr>packet_queues := AList.update port_id [] (packet_queues s')\<rparr>) ks s
   = s\<lparr>packet_queues := fold (\<lambda>k. AList.update k []) ks (packet_queues s)\<rparr>"
  by (induction ks arbitrary: s) simp_all

lemma flush_eq:
  "flush s = s\<lparr>packet_queues := fold (\<lambda>k. AList.update k []) (map fst (packet_queues s)) (packet_queues s)\<rparr>"
  unfolding flush_def by (rule flush_fold_fields)

text \<open>
  Claim C9. \<open>flush()\<close> sets every per-port queue to the empty list and changes
  nothing else: the keys of \<open>packet_queues\<close> and their order, every rx and tx counter
  and the port registry are as before, and so is every other field.
\<close>

theorem flush_frame:
  "map_of (packet_queues (flush s)) = map_option (\<lambda>q. []) \<circ> map_of (packet_queues s)
   \<and> map fst (packet_queues (flush s)) = map fst (packet_queues s)
   \<and> rx_counters (flush s) = rx_counters s
   \<and> tx_counters (flush s) = tx_counters s
   \<and> ports (flush s) = ports s
   \<and> flush s = s\<lparr>packet_queues := packet_queues (flush s)\<rparr>"
proof -
  have "map_of (packet_queues (flush s)) k = (map_option (\<lambda>q. []) \<circ> map_of (packet_queues s)) k" for k
  proof (cases "k \<in> fst ` set (packet_queues s)")
    case True
    then obtain q where "map_of (packet_queues s) k = Some q"
      by (metis map_of_eq_None_iff not_Some_eq)
    with True show ?thesis by (simp add: flush_eq map_of_fold_update_empty)
  next
    case False
    then have "map_of (packet_queues s) k = None" by (simp add: map_of_eq_None_iff)
    with False show ?thesis by (simp add: flush_eq map_of_fold_update_empty)
  qed
  then have "map_of (packet_queues (flush s)) = map_option (\<lambda>q. []) \<circ> map_of (packet_queues s)"
    by (rule ext)
  moreover have "map fst (packet_queues (flush s)) = map fst (packet_queues s)"
    by (simp add: flush_eq keys_fold_update_existing)
  ultimately show ?thesis by (simp add: flush_eq)
qed
subsection \<open>\<open>port_add\<close>\<close>

lemma two_ports_eq:
  "two_ports = \<lparr>ports = [((0, 1), \<lparr>bk_interface_name = ''eth1'', bk_device_number = 0, bk_port_number = 1,
       bk_stash_port_number = Some 1, bk_stash_device_number = Some 0\<rparr>), ((0, 2), \<lparr>bk_interface_name = ''eth2'', bk_device_number = 0, bk_port_number = 2,
       bk_stash_port_number = Some 2, bk_stash_device_number = Some 0\<rparr>)],
     packet_queues = [((0, 1), []), ((0, 2), [])], rx_counters = (\<lambda>k. 0), tx_counters = (\<lambda>k. 0),
     qlen = 100, killed = False, pcap_writer = None, dppclass = plain_port\<rparr>"
  by (simp add: two_ports_def port_add_def init_def plain_port_def MAX_QUEUE_LEN_def Let_def)

text \<open>
  Claim C6 says that \<open>port_add\<close> fails when the key is already registered. The code
  has no such check: on the state \<open>two_ports\<close>, where \<open>(0, 1)\<close> is registered,
  \<open>port_add("eth9", 0, 1)\<close> returns normally and the key is bound to the new port.
\<close>

theorem port_add_existing_key_succeeds:
  "map_of (ports two_ports) (0, 1) \<noteq> None
   \<and> fst (port_add two_ports ''eth9'' 0 1) = None
   \<and> map_option bk_interface_name (map_of (ports (snd (port_add two_ports ''eth9'' 0 1))) (0, 1))
       = Some ''eth9''"
  by (simp add: two_ports_eq port_add_def plain_port_def Let_def)

text \<open>
  Claim C6, amended. \<open>port_add\<close> does not look at the registry. Whenever the port class
  constructs a port, \<open>port_add\<close> returns normally, binds the key to that port (with
  the stashed numbers) and to an empty queue, replacing what the key had, and leaves
  every other key and the counters alone. It fails only when the constructor fails, and
  then the state is unchanged.
\<close>

theorem port_add_overwrites:
  "(dppclass s iface dev port = Inr b \<longrightarrow>
      (\<exists>s'. port_add s iface dev port = (None, s')
         \<and> map_of (ports s') (dev, port)
             = Some (b\<lparr>bk_stash_port_number := Some port, bk_stash_device_number := Some dev\<rparr>)
         \<and> map_of (packet_queues s') (dev, port) = Some []
         \<and> (\<forall>k. k \<noteq> (dev, port) \<longrightarrow>
               map_of (ports s') k = map_of (ports s) k
               \<and> map_of (packet_queues s') k = map_of (packet_queues s) k)
         \<and> rx_counters s' = rx_counters s \<and> tx_counters s' = tx_counters s))
   \<and> (dppclass s iface dev port = Inl e \<longrightarrow> port_add s iface dev port = (Some e, s))"
  by (simp add: port_add_def Let_def update_conv')

theorem port_add_overwrites_witness:
  "dppclass two_ports ''eth9'' 0 1
     = Inr \<lparr>bk_interface_name = ''eth9'', bk_device_number = 0, bk_port_number = 1,
            bk_stash_port_number = None, bk_stash_device_number = None\<rparr>
   \<and> (\<exists>s'. port_add two_ports ''eth9'' 0 1 = (None, s')
          \<and> map_of (packet_queues s') (0, 1) = Some []
          \<and> ((0, 2) \<noteq> ((0, 1) :: port_id)
               \<longrightarrow> map_of (packet_queues s') (0, 2) = map_of (packet_queues two_ports) (0, 2)))
   \<and> dppclass (init None (\<lambda>i d p. Inl BackendError)) ''eth1'' 0 1 = Inl BackendError
   \<and> port_add (init None (\<lambda>i d p. Inl BackendError)) ''eth1'' 0 1
       = (Some BackendError, init None (\<lambda>i d p. Inl BackendError))"
proof -
  have a: "dppclass two_ports ''eth9'' 0 1
     = Inr \<lparr>bk_interface_name = ''eth9'', bk_device_number = 0, bk_port_number = 1,
            bk_stash_port_number = None, bk_stash_device_number = None\<rparr>"
    by (simp add: two_ports_eq plain_port_def)
  have b: "dppclass (init None (\<lambda>i d p. Inl BackendError)) ''eth1'' 0 1 = Inl BackendError"
    by (simp add: init_def)
  from port_add_overwrites [of two_ports "''eth9''" 0 1 _ BackendError] a
  obtain s' where "port_add two_ports ''eth9'' 0 1 = (None, s')"
    "map_of (packet_queues s') (0, 1) = Some []"
    "\<forall>k. k \<noteq> (0, 1) \<longrightarrow> map_of (packet_queues s') k = map_of (packet_queues two_ports) k"
    by blast
  then have "\<exists>s'. port_add two_ports ''eth9'' 0 1 = (None, s')
          \<and> map_of (packet_queues s') (0, 1) = Some []
          \<and> ((0, 2) \<noteq> ((0, 1) :: port_id)
               \<longrightarrow> map_of (packet_queues s') (0, 2) = map_of (packet_queues two_ports) (0, 2))"
    by blast
  moreover from port_add_overwrites [of "init None (\<lambda>i d p. Inl BackendError)" "''eth1''" 0 1 _ BackendError] b
  have "port_add (init None (\<lambda>i d p. Inl BackendError)) ''eth1'' 0 1
       = (Some BackendError, init None (\<lambda>i d p. Inl BackendError))"
    by blast
  ultimately show ?thesis using a b by blast
qed

section \<open>The capture loop\<close>

lemma pcap_write_fields [simp]:
  "ports (pcap_write s f t d p) = ports s"
  "packet_queues (pcap_write s f t d p) = packet_queues s"
  "rx_counters (pcap_write s f t d p) = rx_counters s"
  "tx_counters (pcap_write s f t d p) = tx_counters s"
  "qlen (pcap_write s f t d p) = qlen s"
  "killed (pcap_write s f t d p) = killed s"
  "dppclass (pcap_write s f t d p) = dppclass s"
  by (simp_all add: pcap_write_def split: option.splits)

lemma run_sel_no_queue:
  "map_of (packet_queues s) (d, p) = None \<Longrightarrow>
   run_sel s (Source (Inr (Some (d, p, f, t)))) = (Some KeyError, pcap_write s f t d p)"
  by (simp add: run_sel_def)

lemma run_sel_pop_empty:
  "map_of (packet_queues s) (d, p) = Some [] \<Longrightarrow> qlen s \<le> 0 \<Longrightarrow>
   run_sel s (Source (Inr (Some (d, p, f, t)))) = (Some IndexError, pcap_write s f t d p)"
  by (simp add: run_sel_def)

lemma run_sel_enqueue:
  assumes "map_of (packet_queues s) (d, p) = Some q" and "q \<noteq> [] \<or> 0 < qlen s"
  shows "run_sel s (Source (Inr (Some (d, p, f, t))))
         = (None, (pcap_write s f t d p)
              \<lparr>packet_queues :=
                 AList.update (d, p) ((if qlen s \<le> int (length q) then tl q else q) @ [(f, t)])
                   (packet_queues s),
               rx_counters := (rx_counters s)((d, p) := rx_counters s (d, p) + 1)\<rparr>)"
proof (cases "qlen s \<le> int (length q)")
  case True
  then have "q \<noteq> []" using assms(2) by auto
  with True assms(1) show ?thesis by (simp add: run_sel_def Let_def)
next
  case False
  with assms(1) show ?thesis by (simp add: run_sel_def Let_def)
qed

text \<open>
  Claim C5 says that a frame received for a key without a queue (its port was just
  removed) is dropped and the loop goes on. The lookup
  \<open>self.packet_queues[(device_number, port_number)]\<close> raises \<open>KeyError\<close> instead, and
  nothing in \<open>run\<close> catches it. After \<open>port_remove(0, 1)\<close>, a frame for \<open>(0, 1)\<close>
  ends the thread: the frame for the live port \<open>(0, 2)\<close> that was ready in the same
  iteration and the one of the next iteration are never enqueued.
\<close>

theorem run_unregistered_key_crashes:
  "run (snd (port_remove two_ports 0 1))
       [Ready [Source (Inr (Some (0, 1, [170], 5))), Source (Inr (Some (0, 2, [187], 6)))],
        Ready [Source (Inr (Some (0, 2, [204], 7)))]]
   = (Crashed KeyError, snd (port_remove two_ports 0 1))
   \<and> map_of (packet_queues (snd (port_remove two_ports 0 1))) (0, 2) = Some []"
  by (simp add: two_ports_eq port_remove_def run_sel_def pcap_write_def Let_def)

end
